theory Spec2Isabelle
  imports Complex_Main "HOL-Library.Word"
begin

unbundle bit_operations_syntax

section \<open>Smart thermostat prototype (Thermostat.py)\<close>

text \<open>
  The development follows \<^verbatim>\<open>Thermostat.py\<close>: the AHT20 sensor read, the mode and setpoint
  button handlers, the LED outputs, the LCD and UART helpers and one iteration of the main
  loop of \<^verbatim>\<open>Thermostat.run\<close>, with its cleanup.

  Python floats are modelled by exact rationals: the wall clock \<^verbatim>\<open>time.time()\<close>, the two
  timestamps and the temperatures are of type \<open>rat\<close>. The sensor's Celsius value is a
  multiple of 1/131072 below 200 in magnitude and is therefore the same number in
  binary64; the division by 5 of the Fahrenheit conversion and the subtraction of two
  timestamps round in binary64 and are exact here. \<^verbatim>\<open>float("nan")\<close>, which the loop uses
  for a failed read, is the value \<open>None\<close> of an option. Console output (\<^verbatim>\<open>print\<close>) is
  left out.

  The libraries are taken as they are. In particular gpiozero's \<^verbatim>\<open>PWMLED\<close> offers
  \<^verbatim>\<open>on\<close>, \<^verbatim>\<open>off\<close>, \<^verbatim>\<open>toggle\<close>, \<^verbatim>\<open>blink\<close>, \<^verbatim>\<open>pulse\<close> and \<^verbatim>\<open>value\<close> and has no
  \<^verbatim>\<open>stop\<close>: the calls \<^verbatim>\<open>self.red.stop()\<close> and \<^verbatim>\<open>self.blue.stop()\<close> raise
  \<^verbatim>\<open>AttributeError\<close>.
\<close>

subsection \<open>Configuration constants\<close>

definition LCD_COLS :: nat where "LCD_COLS = 16"
definition SETPOINT_F_DEFAULT :: int where "SETPOINT_F_DEFAULT = 72"
definition LCD_ALT_PERIOD :: rat where "LCD_ALT_PERIOD = 2"
definition UART_PERIOD :: rat where "UART_PERIOD = 30"

definition OFF :: string where "OFF = ''off''"
definition HEAT :: string where "HEAT = ''heat''"
definition COOL :: string where "COOL = ''cool''"
definition STATE_ORDER :: "string list" where "STATE_ORDER = [OFF, HEAT, COOL]"

subsection \<open>Data\<close>

text \<open>
  A PWM LED is off, held at full brightness (\<^verbatim>\<open>value = 1.0\<close>) or pulsing in the
  background (\<^verbatim>\<open>pulse(..., n=None, background=True)\<close>).
\<close>

datatype led = Off | SolidOn | Fade

datatype error = BusError | BadReadLength | IndexError | KeyError | LcdError | AttributeError

text \<open>What the object has done to the display and to the serial port.\<close>

datatype effect =
    LcdWrite string string
  | LcdClear
  | UartWrite string

record thermostat =
  red :: led
  blue :: led
  lcd :: bool
  ser :: bool
  state_idx :: nat
  setpoint_f :: int
  last_uart :: rat
  last_alt :: rat
  alt_flag :: bool
  out :: "effect list"

text \<open>
  What one iteration of the loop reads from its environment: whether the measurement
  trigger is accepted by the bus, the payload of the I2C read (\<open>None\<close> when the transfer
  raises), the clock, the formatted date, and whether the display and the serial port
  accept a write.
\<close>

record tick =
  trigger_ok :: bool
  rdwr :: "8 word list option"
  now :: rat
  stamp :: string
  lcd_ok :: bool
  ser_ok :: bool

type_synonym 'a raising = "(error + 'a) \<times> thermostat"

subsection \<open>LED operations\<close>

text \<open>
  \<^verbatim>\<open>stop()\<close> is not an attribute of a \<^verbatim>\<open>PWMLED\<close>: looking it up raises, whatever the
  LED is doing, and the LED is left as it is. \<^verbatim>\<open>off()\<close>, \<^verbatim>\<open>value = 1.0\<close> and
  \<^verbatim>\<open>pulse(...)\<close> set the level whatever it was.
\<close>

definition led_stop :: "led \<Rightarrow> error + led" where
  "led_stop l = Inl AttributeError"

definition led_off :: "led \<Rightarrow> led" where "led_off l = Off"
definition led_full :: "led \<Rightarrow> led" where "led_full l = SolidOn"
definition led_pulse :: "led \<Rightarrow> led" where "led_pulse l = Fade"

subsection \<open>AHT20 read\<close>

text \<open>
  \<^verbatim>\<open>_aht20_read_celsius\<close>: trigger, read six bytes, check the length, extract the two
  20-bit fields with Python's unbounded integer shifts and masks, convert.
\<close>

definition hum_raw_of :: "8 word list \<Rightarrow> nat" where
  "hum_raw_of data =
     (push_bit 12 (unat (data ! 1)) OR push_bit 4 (unat (data ! 2)) OR drop_bit 4 (unat (data ! 3)))
       AND 0xFFFFF"

definition tmp_raw_of :: "8 word list \<Rightarrow> nat" where
  "tmp_raw_of data =
     (push_bit 16 (unat (data ! 3) AND 0x0F) OR push_bit 8 (unat (data ! 4)) OR unat (data ! 5))
       AND 0xFFFFF"

definition aht20_read_celsius :: "tick \<Rightarrow> error + rat" where
  "aht20_read_celsius tk =
     (if \<not> trigger_ok tk then Inl BusError
      else case rdwr tk of
        None \<Rightarrow> Inl BusError
      | Some data \<Rightarrow>
          if length data \<noteq> 6 then Inl BadReadLength
          else Inr (of_nat (tmp_raw_of data) * 200 / of_nat (push_bit 20 (1::nat)) - 50))"

subsection \<open>Buttons and mode\<close>

text \<open>The property \<^verbatim>\<open>state\<close>: indexing \<^verbatim>\<open>STATE_ORDER\<close> raises out of range.\<close>

definition state :: "thermostat \<Rightarrow> error + string" where
  "state s = (if state_idx s < length STATE_ORDER then Inr (STATE_ORDER ! state_idx s)
              else Inl IndexError)"

definition apply_outputs :: "rat option \<Rightarrow> thermostat \<Rightarrow> unit raising" where
  "apply_outputs current_temp_f s =
     (case current_temp_f of
        None \<Rightarrow>
          (case state s of
             Inl e \<Rightarrow> (Inl e, s)
           | Inr m \<Rightarrow>
               if m = HEAT then (Inr (), s\<lparr>red := led_full (red s), blue := led_off (blue s)\<rparr>)
               else if m = COOL then (Inr (), s\<lparr>blue := led_full (blue s), red := led_off (red s)\<rparr>)
               else (Inr (), s\<lparr>red := led_off (red s), blue := led_off (blue s)\<rparr>))
      | Some t \<Rightarrow>
          (case led_stop (red s) of
             Inl e \<Rightarrow> (Inl e, s)
           | Inr r \<Rightarrow>
          (case led_stop (blue s) of
             Inl e \<Rightarrow> (Inl e, s\<lparr>red := r\<rparr>)
           | Inr b \<Rightarrow>
          (let s1 = s\<lparr>red := r, blue := b\<rparr> in
           case state s1 of
             Inl e \<Rightarrow> (Inl e, s1)
           | Inr m \<Rightarrow>
               if m = HEAT then
                 (let s2 = s1\<lparr>blue := led_off (blue s1)\<rparr> in
                  if t < of_int (setpoint_f s2) then (Inr (), s2\<lparr>red := led_pulse (red s2)\<rparr>)
                  else (Inr (), s2\<lparr>red := led_full (red s2)\<rparr>))
               else if m = COOL then
                 (let s2 = s1\<lparr>red := led_off (red s1)\<rparr> in
                  if t > of_int (setpoint_f s2) then (Inr (), s2\<lparr>blue := led_pulse (blue s2)\<rparr>)
                  else (Inr (), s2\<lparr>blue := led_full (blue s2)\<rparr>))
               else (Inr (), s1\<lparr>red := led_off (red s1), blue := led_off (blue s1)\<rparr>)))))"

text \<open>
  \<^verbatim>\<open>_cycle_mode\<close>, \<^verbatim>\<open>_sp_up\<close> and \<^verbatim>\<open>_sp_down\<close>, the three button handlers. The first
  advances the index, reads \<^verbatim>\<open>self.state\<close> for its message, and then calls
  \<^verbatim>\<open>self.red.stop()\<close>.
\<close>

definition cycle_mode :: "thermostat \<Rightarrow> unit raising" where
  "cycle_mode s =
     (let s1 = s\<lparr>state_idx := (state_idx s + 1) mod length STATE_ORDER\<rparr> in
      case state s1 of
        Inl e \<Rightarrow> (Inl e, s1)
      | Inr m \<Rightarrow>
          (case led_stop (red s1) of
             Inl e \<Rightarrow> (Inl e, s1)
           | Inr r \<Rightarrow>
          (case led_stop (blue s1) of
             Inl e \<Rightarrow> (Inl e, s1\<lparr>red := r\<rparr>)
           | Inr b \<Rightarrow> apply_outputs None (s1\<lparr>red := r, blue := b\<rparr>))))"

definition sp_up :: "thermostat \<Rightarrow> thermostat" where
  "sp_up s = s\<lparr>setpoint_f := setpoint_f s + 1\<rparr>"

definition sp_down :: "thermostat \<Rightarrow> thermostat" where
  "sp_down s = s\<lparr>setpoint_f := setpoint_f s - 1\<rparr>"

subsection \<open>Python string formatting\<close>

text \<open>
  \<^verbatim>\<open>str\<close> of an integer, \<^verbatim>\<open>rjust\<close>/\<^verbatim>\<open>ljust\<close>, and the format specifications
  \<^verbatim>\<open>.1f\<close>, \<^verbatim>\<open>5.1f\<close> and \<^verbatim>\<open>>3d\<close> used by the f-strings. A float is printed from its
  exact value, rounded to the nearest tenth with ties to even, and keeps its sign when it
  rounds to zero.
\<close>

fun str_nat :: "nat \<Rightarrow> string" where
  "str_nat n = (if n < 10 then [''0123456789'' ! n]
                else str_nat (n div 10) @ [''0123456789'' ! (n mod 10)])"

declare str_nat.simps [simp del]

definition str_int :: "int \<Rightarrow> string" where
  "str_int i = (if i < 0 then ''-'' @ str_nat (nat (- i)) else str_nat (nat i))"

definition rjust :: "nat \<Rightarrow> string \<Rightarrow> string" where
  "rjust w xs = replicate (w - length xs) CHR '' '' @ xs"

definition ljust :: "nat \<Rightarrow> string \<Rightarrow> string" where
  "ljust w xs = xs @ replicate (w - length xs) CHR '' ''"

definition round_half_even :: "rat \<Rightarrow> int" where
  "round_half_even q =
     (let f = \<lfloor>q\<rfloor>; r = q - of_int f in
      if r < 1 / 2 then f
      else if r > 1 / 2 then f + 1
      else if even f then f else f + 1)"

definition fmt_1f :: "rat \<Rightarrow> string" where
  "fmt_1f x =
     (let n = nat (round_half_even (\<bar>x\<bar> * 10)) in
      (if x < 0 then ''-'' else '''') @ str_nat (n div 10) @ ''.'' @ str_nat (n mod 10))"

definition fmt_5_1f :: "rat \<Rightarrow> string" where
  "fmt_5_1f x = rjust 5 (fmt_1f x)"

definition fmt_3d :: "int \<Rightarrow> string" where
  "fmt_3d i = rjust 3 (str_int i)"

subsection \<open>Display and telemetry\<close>

definition lcd_write :: "tick \<Rightarrow> string \<Rightarrow> string \<Rightarrow> thermostat \<Rightarrow> unit raising" where
  "lcd_write tk line1 line2 s =
     (if \<not> lcd s then (Inr (), s)
      else
        (let l1 = ljust LCD_COLS (take LCD_COLS line1);
             l2 = ljust LCD_COLS (take LCD_COLS line2) in
         if lcd_ok tk then (Inr (), s\<lparr>out := out s @ [LcdWrite l1 l2]\<rparr>)
         else (Inl LcdError, s)))"

definition update_lcd :: "tick \<Rightarrow> rat \<Rightarrow> thermostat \<Rightarrow> unit raising" where
  "update_lcd tk current_temp_f s =
     (if \<not> alt_flag s then lcd_write tk (stamp tk) (''T:'' @ fmt_5_1f current_temp_f @ ''F'') s
      else
        case state s of
          Inl e \<Rightarrow> (Inl e, s)
        | Inr m \<Rightarrow>
            (case map_of [(''off'', ''OFF''), (''heat'', ''HEAT''), (''cool'', ''COOL'')] m of
               None \<Rightarrow> (Inl KeyError, s)
             | Some st \<Rightarrow> lcd_write tk (stamp tk) (st @ '' SP:'' @ fmt_3d (setpoint_f s) @ ''F'') s))"

definition uart_send :: "tick \<Rightarrow> rat \<Rightarrow> thermostat \<Rightarrow> unit raising" where
  "uart_send tk current_temp_f s =
     (if \<not> ser s then (Inr (), s)
      else
        case state s of
          Inl e \<Rightarrow> (Inl e, s)
        | Inr m \<Rightarrow>
            (let msg = m @ '','' @ fmt_1f current_temp_f @ '','' @ str_int (setpoint_f s) @ [CHR 0x0A] in
             if ser_ok tk then (Inr (), s\<lparr>out := out s @ [UartWrite msg]\<rparr>)
             else (Inr (), s)))"

subsection \<open>The main loop\<close>

text \<open>
  One pass through the body of \<^verbatim>\<open>while True\<close>. An exception raised outside the
  \<^verbatim>\<open>try\<close> around the sensor read leaves the body at that point, with the state as it
  then is.
\<close>

definition read_temp_f :: "tick \<Rightarrow> rat option" where
  "read_temp_f tk =
     (case aht20_read_celsius tk of
        Inl e \<Rightarrow> None
      | Inr temp_c \<Rightarrow> Some (temp_c * 9 / 5 + 32))"

definition alternate :: "tick \<Rightarrow> thermostat \<Rightarrow> thermostat" where
  "alternate tk s =
     (if now tk - last_alt s \<ge> LCD_ALT_PERIOD
      then s\<lparr>alt_flag := \<not> alt_flag s, last_alt := now tk\<rparr>
      else s)"

text \<open>The last step of the body, under the comment \<^verbatim>\<open>UART every 30s\<close>.\<close>

definition telemetry :: "tick \<Rightarrow> rat option \<Rightarrow> thermostat \<Rightarrow> unit raising" where
  "telemetry tk temp_f s =
     (case temp_f of
        Some t \<Rightarrow>
          if now tk - last_uart s \<ge> UART_PERIOD then
            (case uart_send tk t s of
               (Inl e, s4) \<Rightarrow> (Inl e, s4)
             | (Inr _, s4) \<Rightarrow> (Inr (), s4\<lparr>last_uart := now tk\<rparr>))
          else (Inr (), s)
      | None \<Rightarrow> (Inr (), s))"

definition run_iter :: "tick \<Rightarrow> thermostat \<Rightarrow> unit raising" where
  "run_iter tk s =
     (let temp_f = read_temp_f tk in
      case (case temp_f of None \<Rightarrow> (Inr (), s) | Some t \<Rightarrow> apply_outputs (Some t) s) of
        (Inl e, s1) \<Rightarrow> (Inl e, s1)
      | (Inr _, s1) \<Rightarrow>
          (let s2 = alternate tk s1 in
           case (case temp_f of None \<Rightarrow> (Inr (), s2) | Some t \<Rightarrow> update_lcd tk t s2) of
             (Inl e, s3) \<Rightarrow> (Inl e, s3)
           | (Inr _, s3) \<Rightarrow> telemetry tk temp_f s3))"

text \<open>
  The \<^verbatim>\<open>finally\<close> block of \<^verbatim>\<open>run\<close>. It begins with \<^verbatim>\<open>self.red.stop()\<close>; a failing
  \<^verbatim>\<open>lcd.clear()\<close> is swallowed; closing the bus and the serial port changes nothing
  that is recorded here.
\<close>

definition cleanup :: "bool \<Rightarrow> thermostat \<Rightarrow> unit raising" where
  "cleanup clear_ok s =
     (case led_stop (red s) of
        Inl e \<Rightarrow> (Inl e, s)
      | Inr r \<Rightarrow>
     (case led_stop (blue s) of
        Inl e \<Rightarrow> (Inl e, s\<lparr>red := r\<rparr>)
      | Inr b \<Rightarrow>
     (let s1 = s\<lparr>red := r, blue := b\<rparr>;
          s2 = s1\<lparr>red := led_off (red s1), blue := led_off (blue s1)\<rparr> in
      (Inr (), if lcd s2 \<and> clear_ok then s2\<lparr>out := out s2 @ [LcdClear]\<rparr> else s2))))"

text \<open>
  The object after \<^verbatim>\<open>__init__\<close>, given whether the display and the serial port could
  be opened.
\<close>

definition init :: "bool \<Rightarrow> bool \<Rightarrow> thermostat" where
  "init lcd_up ser_up =
     \<lparr>red = Off, blue = Off, lcd = lcd_up, ser = ser_up, state_idx = 0,
      setpoint_f = SETPOINT_F_DEFAULT, last_uart = 0, last_alt = 0, alt_flag = False,
      out = (if lcd_up then [LcdClear] else [])\<rparr>"

text \<open>
  A run of the program: the loop iterations and the button presses that happen before the
  keyboard interrupt, in the order in which they take effect, then the cleanup. A button
  handler runs between two iterations, in gpiozero's own thread: an exception that leaves
  it does not reach the loop. An exception that leaves an iteration ends the loop; the
  cleanup still runs, and an exception of its own replaces the one in flight.
\<close>

datatype input = Iteration tick | PressMode | PressUp | PressDown

fun step :: "input \<Rightarrow> thermostat \<Rightarrow> unit raising" where
  "step (Iteration tk) s = run_iter tk s"
| "step PressMode s = (Inr (), snd (cycle_mode s))"
| "step PressUp s = (Inr (), sp_up s)"
| "step PressDown s = (Inr (), sp_down s)"

fun loop :: "input list \<Rightarrow> thermostat \<Rightarrow> unit raising" where
  "loop [] s = (Inr (), s)"
| "loop (i # is) s =
     (case step i s of
        (Inl e, s') \<Rightarrow> (Inl e, s')
      | (Inr _, s') \<Rightarrow> loop is s')"

definition run :: "input list \<Rightarrow> bool \<Rightarrow> thermostat \<Rightarrow> unit raising" where
  "run is clear_ok s =
     (case loop is s of
        (r, s') \<Rightarrow>
          (case cleanup clear_ok s' of
             (Inl e, s'') \<Rightarrow> (Inl e, s'')
           | (Inr _, s'') \<Rightarrow> (r, s'')))"

subsection \<open>Observations used to state the properties\<close>



section \<open>Auxiliary facts\<close>

subsection \<open>Modes and outputs\<close>

lemmas mode_defs = OFF_def HEAT_def COOL_def STATE_ORDER_def

lemmas led_defs = led_off_def led_full_def led_pulse_def

lemma idx_cases: "n < (3::nat) \<Longrightarrow> n = 0 \<or> n = 1 \<or> n = 2"
  by arith

lemma state_frame [simp]:
  "state (s\<lparr>red := r\<rparr>) = state s"
  "state (s\<lparr>blue := b\<rparr>) = state s"
  "state (s\<lparr>out := es\<rparr>) = state s"
  "state (s\<lparr>alt_flag := f\<rparr>) = state s"
  "state (s\<lparr>last_alt := x\<rparr>) = state s"
  "state (s\<lparr>last_uart := x\<rparr>) = state s"
  "state (s\<lparr>setpoint_f := k\<rparr>) = state s"
  by (simp_all add: state_def)

lemma state_idx_values:
  "state_idx s = 0 \<Longrightarrow> state s = Inr OFF"
  "state_idx s = 1 \<Longrightarrow> state s = Inr HEAT"
  "state_idx s = 2 \<Longrightarrow> state s = Inr COOL"
  by (simp_all add: state_def STATE_ORDER_def)


text \<open>With a temperature, \<^verbatim>\<open>_apply_outputs\<close> is left at its first \<^verbatim>\<open>stop()\<close>.\<close>

lemma apply_outputs_Some_eq: "apply_outputs (Some t) s = (Inl AttributeError, s)"
  by (simp add: apply_outputs_def led_stop_def)

lemma apply_outputs_None_eq:
  assumes "state_idx s < 3"
  shows "apply_outputs None s =
     (Inr (), s\<lparr>red := (if state_idx s = 1 then SolidOn else Off),
                blue := (if state_idx s = 2 then SolidOn else Off)\<rparr>)"
  using idx_cases [OF assms]
  by (elim disjE) (simp_all add: apply_outputs_def Let_def state_idx_values led_defs mode_defs)

text \<open>The mode handler advances the index and is then left at its first \<^verbatim>\<open>stop()\<close>.\<close>

lemma cycle_mode_eq:
  "cycle_mode s = (Inl AttributeError, s\<lparr>state_idx := (state_idx s + 1) mod 3\<rparr>)"
proof -
  have "state (s\<lparr>state_idx := (state_idx s + 1) mod 3\<rparr>)
      = Inr (STATE_ORDER ! ((state_idx s + 1) mod 3))"
    by (simp add: state_def STATE_ORDER_def)
  then show ?thesis
    by (simp add: cycle_mode_def Let_def led_stop_def STATE_ORDER_def)
qed


subsection \<open>The loop body\<close>



lemma alternate_frame [simp]:
  "state_idx (alternate tk s) = state_idx s"
  "red (alternate tk s) = red s"
  "blue (alternate tk s) = blue s"
  "out (alternate tk s) = out s"
  "last_uart (alternate tk s) = last_uart s"
  "setpoint_f (alternate tk s) = setpoint_f s"
  "ser (alternate tk s) = ser s"
  "lcd (alternate tk s) = lcd s"
  by (simp_all add: alternate_def)

lemma run_iter_None: "read_temp_f tk = None \<Longrightarrow> run_iter tk s = (Inr (), alternate tk s)"
  by (simp add: run_iter_def telemetry_def)

lemma run_iter_Some: "read_temp_f tk = Some t \<Longrightarrow> run_iter tk s = (Inl AttributeError, s)"
  by (simp add: run_iter_def apply_outputs_Some_eq)

subsection \<open>The packed temperature field\<close>

lemma nat_or_pack:
  fixes a b c :: nat
  assumes "b < 256" and "c < 256"
  shows "(push_bit 16 (a AND 0x0F) OR push_bit 8 b OR c) AND 0xFFFFF
         = (a mod 16) * 65536 + b * 256 + c"
proof -
  have m4: "(0x0F::nat) = mask 4" by (simp add: mask_eq_exp_minus_1)
  have m20: "(0xFFFFF::nat) = mask 20" by (simp add: mask_eq_exp_minus_1)
  have b: "take_bit 8 b = b" and c: "take_bit 8 c = c"
    using assms by (simp_all add: take_bit_nat_eq_self)
  have d1: "push_bit 8 (take_bit 8 b) AND take_bit 8 c = 0"
    by (auto simp: bit_eq_iff bit_simps)
  have e1: "push_bit 8 (take_bit 8 b) + take_bit 8 c = push_bit 8 (take_bit 8 b) OR take_bit 8 c"
    by (rule disjunctive_add_eq_or [OF d1])
  have d2: "push_bit 16 (take_bit 4 a) AND (push_bit 8 (take_bit 8 b) OR take_bit 8 c) = 0"
    by (auto simp: bit_eq_iff bit_simps)
  have e2: "push_bit 16 (take_bit 4 a) + (push_bit 8 (take_bit 8 b) OR take_bit 8 c)
        = push_bit 16 (take_bit 4 a) OR (push_bit 8 (take_bit 8 b) OR take_bit 8 c)"
    by (rule disjunctive_add_eq_or [OF d2])
  have e3: "(push_bit 16 (a AND mask 4) OR push_bit 8 (take_bit 8 b) OR take_bit 8 c) AND mask 20
        = push_bit 16 (take_bit 4 a) OR (push_bit 8 (take_bit 8 b) OR take_bit 8 c)"
    by (auto simp: bit_eq_iff bit_simps)
  have "(push_bit 16 (a AND 0x0F) OR push_bit 8 b OR c) AND 0xFFFFF
        = push_bit 16 (take_bit 4 a) + (push_bit 8 b + c)"
    using e1 e2 e3 unfolding b c m4 m20 by simp
  then show ?thesis
    by (simp add: push_bit_eq_mult take_bit_eq_mod)
qed

lemma tmp_raw_of_arith:
  "tmp_raw_of [b0, b1, b2, b3, b4, b5] = (unat b3 mod 16) * 65536 + unat b4 * 256 + unat b5"
proof -
  have t: "unat w < 256" for w :: "8 word"
    using unsigned_less [of w, where 'a = nat] by simp
  show ?thesis
    using nat_or_pack [OF t [of b4] t [of b5], of "unat b3"]
    by (simp add: tmp_raw_of_def)
qed

subsection \<open>Evaluation on concrete inputs\<close>






section \<open>Properties\<close>

subsection \<open>C1\<close>

text \<open>
  C1. \<^verbatim>\<open>_apply_outputs\<close> called with a temperature does not apply the intents its
  docstring lists (red fading in mode \<^verbatim>\<open>heat\<close> below the setpoint, and so on): its first
  statement after the \<^verbatim>\<open>None\<close> test is \<^verbatim>\<open>self.red.stop()\<close>, which raises. In mode
  \<^verbatim>\<open>heat\<close> with setpoint 72 and a temperature of 65 the call is left by
  \<^verbatim>\<open>AttributeError\<close> with the object unchanged and red still off, where the intent is
  that red fades.
\<close>

theorem apply_outputs_full_raises:
  "state ((init True True)\<lparr>state_idx := 1\<rparr>) = Inr HEAT \<and>
   setpoint_f ((init True True)\<lparr>state_idx := 1\<rparr>) = 72 \<and>
   apply_outputs (Some 65) ((init True True)\<lparr>state_idx := 1\<rparr>)
     = (Inl AttributeError, ((init True True)\<lparr>state_idx := 1\<rparr>)) \<and>
   red (snd (apply_outputs (Some 65) ((init True True)\<lparr>state_idx := 1\<rparr>))) = Off"
  by (simp add: apply_outputs_Some_eq init_def state_def mode_defs SETPOINT_F_DEFAULT_def)

subsection \<open>C2\<close>


subsection \<open>C3\<close>

text \<open>
  C3. On an iteration with a temperature sample the alternation step is not reached: the
  body is left by \<^verbatim>\<open>AttributeError\<close> at \<^verbatim>\<open>self._apply_outputs(temp_f)\<close>. At the state
  after start-up, with a sample and the clock 2 seconds past the last-flip timestamp, the
  flag does not change.
\<close>

theorem alternation_flag_skipped:
  "LCD_ALT_PERIOD \<le> now \<lparr>trigger_ok = True, rdwr = Some [0x1C, 0, 0, 0x05, 0x9D, 0x04], now = 2,
      stamp = ''11/03 10:00:02'', lcd_ok = True, ser_ok = True\<rparr> - last_alt (init True True) \<and>
   read_temp_f \<lparr>trigger_ok = True, rdwr = Some [0x1C, 0, 0, 0x05, 0x9D, 0x04], now = 2,
      stamp = ''11/03 10:00:02'', lcd_ok = True, ser_ok = True\<rparr> = Some (2238061 / 32768) \<and>
   run_iter \<lparr>trigger_ok = True, rdwr = Some [0x1C, 0, 0, 0x05, 0x9D, 0x04], now = 2,
      stamp = ''11/03 10:00:02'', lcd_ok = True, ser_ok = True\<rparr> (init True True) = (Inl AttributeError, init True True) \<and>
   alt_flag (snd (run_iter \<lparr>trigger_ok = True, rdwr = Some [0x1C, 0, 0, 0x05, 0x9D, 0x04], now = 2,
      stamp = ''11/03 10:00:02'', lcd_ok = True, ser_ok = True\<rparr> (init True True))) = alt_flag (init True True)"
proof -
  have t: "read_temp_f \<lparr>trigger_ok = True, rdwr = Some [0x1C, 0, 0, 0x05, 0x9D, 0x04], now = 2,
      stamp = ''11/03 10:00:02'', lcd_ok = True, ser_ok = True\<rparr> = Some (2238061 / 32768)"
    by (simp add: read_temp_f_def aht20_read_celsius_def tmp_raw_of_def)
  show ?thesis
    using run_iter_Some [OF t, of "init True True"] t
    by (simp add: LCD_ALT_PERIOD_def init_def)
qed

subsection \<open>C4\<close>




subsection \<open>C5\<close>

text \<open>
  C5. When the sensor read raises, the iteration returns normally, the loop goes on with
  the next input, and both LEDs are as they were before the iteration.
\<close>

theorem failed_read:
  assumes "aht20_read_celsius tk = Inl e"
  shows "fst (run_iter tk s) = Inr () \<and>
         red (snd (run_iter tk s)) = red s \<and> blue (snd (run_iter tk s)) = blue s \<and>
         loop (Iteration tk # is) s = loop is (snd (run_iter tk s))"
proof -
  have "read_temp_f tk = None" using assms by (simp add: read_temp_f_def)
  then have "run_iter tk s = (Inr (), alternate tk s)" by (rule run_iter_None)
  then show ?thesis by simp
qed

text \<open>An instance, from the state after start-up.\<close>

theorem failed_read_witness:
  "aht20_read_celsius \<lparr>trigger_ok = True, rdwr = Some [0x1C, 0, 0], now = 31,
                       stamp = ''11/03 10:00:31'', lcd_ok = True, ser_ok = True\<rparr> = Inl BadReadLength \<and>
   fst (run_iter \<lparr>trigger_ok = True, rdwr = Some [0x1C, 0, 0], now = 31,
                  stamp = ''11/03 10:00:31'', lcd_ok = True, ser_ok = True\<rparr>
          ((init True True)\<lparr>state_idx := 1, red := Fade\<rparr>)) = Inr () \<and>
   red (snd (run_iter \<lparr>trigger_ok = True, rdwr = Some [0x1C, 0, 0], now = 31,
                  stamp = ''11/03 10:00:31'', lcd_ok = True, ser_ok = True\<rparr>
          ((init True True)\<lparr>state_idx := 1, red := Fade\<rparr>))) = Fade \<and>
   blue (snd (run_iter \<lparr>trigger_ok = True, rdwr = Some [0x1C, 0, 0], now = 31,
                  stamp = ''11/03 10:00:31'', lcd_ok = True, ser_ok = True\<rparr>
          ((init True True)\<lparr>state_idx := 1, red := Fade\<rparr>))) = Off"
  using failed_read [of "\<lparr>trigger_ok = True, rdwr = Some [0x1C, 0, 0], now = 31,
                  stamp = ''11/03 10:00:31'', lcd_ok = True, ser_ok = True\<rparr>" BadReadLength
      "(init True True)\<lparr>state_idx := 1, red := Fade\<rparr>" "[]"]
  by (simp add: aht20_read_celsius_def init_def)

subsection \<open>C6\<close>

text \<open>
  C6. A press of the mode button advances the mode \<^verbatim>\<open>off\<close> to \<^verbatim>\<open>heat\<close>, \<^verbatim>\<open>heat\<close> to
  \<^verbatim>\<open>cool\<close>, \<^verbatim>\<open>cool\<close> to \<^verbatim>\<open>off\<close>, for every mode, and three presses give back the
  mode they started from. (The index is advanced first; the handler is left by
  \<^verbatim>\<open>AttributeError\<close> afterwards, with the new mode in place.)
\<close>

theorem cycle_mode_cyclic:
  assumes "state_idx s < 3"
  shows "(state s = Inr OFF \<longrightarrow> state (snd (cycle_mode s)) = Inr HEAT) \<and>
     (state s = Inr HEAT \<longrightarrow> state (snd (cycle_mode s)) = Inr COOL) \<and>
     (state s = Inr COOL \<longrightarrow> state (snd (cycle_mode s)) = Inr OFF) \<and>
     state (snd (cycle_mode (snd (cycle_mode (snd (cycle_mode s)))))) = state s"
  using idx_cases [OF assms]
  by (elim disjE) (simp_all add: cycle_mode_eq state_def mode_defs)

text \<open>An instance, from the state after start-up.\<close>

theorem cycle_mode_cyclic_witness:
  "state_idx (init True True) < 3 \<and>
   state (init True True) = Inr OFF \<and>
   state (snd (cycle_mode (init True True))) = Inr HEAT \<and>
   state (snd (cycle_mode (snd (cycle_mode (init True True))))) = Inr COOL \<and>
   state (snd (cycle_mode (snd (cycle_mode (snd (cycle_mode (init True True))))))) = Inr OFF"
  using cycle_mode_cyclic [of "init True True"]
    cycle_mode_cyclic [of "snd (cycle_mode (init True True))"]
  by (simp add: init_def state_def mode_defs cycle_mode_eq)

subsection \<open>C7\<close>

text \<open>
  C7. After a mode change the branch of \<^verbatim>\<open>_apply_outputs\<close> without a temperature is not
  reached: the handler is left by \<^verbatim>\<open>AttributeError\<close> at \<^verbatim>\<open>self.red.stop()\<close>, one line
  before the call. From the state after start-up a press gives mode \<^verbatim>\<open>heat\<close> with red
  still off, where the intent is red solid on. Called directly in the same mode, the
  branch does set red solid on and blue off.
\<close>

theorem reduced_path_skipped:
  "fst (cycle_mode (init True True)) = Inl AttributeError \<and>
   state (snd (cycle_mode (init True True))) = Inr HEAT \<and>
   red (snd (cycle_mode (init True True))) = Off \<and>
   blue (snd (cycle_mode (init True True))) = Off \<and>
   red (snd (apply_outputs None (snd (cycle_mode (init True True))))) = SolidOn \<and>
   blue (snd (apply_outputs None (snd (cycle_mode (init True True))))) = Off"
  by (simp add: cycle_mode_eq apply_outputs_None_eq state_def mode_defs init_def)

subsection \<open>C8\<close>

text \<open>
  C8. The sensor read raises exactly when the bus refuses the trigger, the transfer raises
  or the payload is not six bytes long. On a six-byte payload it returns
  \<open>raw * 200 / 2\<^sup>2\<^sup>0 - 50\<close> degrees Celsius, where \<open>raw\<close> is the 20-bit number made of the
  low nibble of byte 3 followed by bytes 4 and 5; byte 0 (the status) and the humidity
  bits play no part. The loop turns the result into Fahrenheit by \<open>* 9 / 5 + 32\<close>.
\<close>

theorem aht20_read:
  "((\<exists>e. aht20_read_celsius tk = Inl e) =
      (\<not> trigger_ok tk \<or> (case rdwr tk of None \<Rightarrow> True | Some data \<Rightarrow> length data \<noteq> 6))) \<and>
   (trigger_ok tk \<and> rdwr tk = Some [b0, b1, b2, b3, b4, b5] \<longrightarrow>
      aht20_read_celsius tk
        = Inr (of_nat (unat b3 mod 16 * 65536 + unat b4 * 256 + unat b5) * 200 / 2 ^ 20 - 50) \<and>
      read_temp_f tk
        = Some ((of_nat (unat b3 mod 16 * 65536 + unat b4 * 256 + unat b5) * 200 / 2 ^ 20 - 50)
                  * 9 / 5 + 32))"
proof (intro conjI impI)
  show "(\<exists>e. aht20_read_celsius tk = Inl e) =
      (\<not> trigger_ok tk \<or> (case rdwr tk of None \<Rightarrow> True | Some data \<Rightarrow> length data \<noteq> 6))"
    by (simp add: aht20_read_celsius_def split: option.split)
next
  assume a: "trigger_ok tk \<and> rdwr tk = Some [b0, b1, b2, b3, b4, b5]"
  then show c: "aht20_read_celsius tk
        = Inr (of_nat (unat b3 mod 16 * 65536 + unat b4 * 256 + unat b5) * 200 / 2 ^ 20 - 50)"
    by (simp add: aht20_read_celsius_def tmp_raw_of_arith push_bit_eq_mult)
  show "read_temp_f tk
        = Some ((of_nat (unat b3 mod 16 * 65536 + unat b4 * 256 + unat b5) * 200 / 2 ^ 20 - 50)
                  * 9 / 5 + 32)"
    unfolding read_temp_f_def c by simp
qed

text \<open>An instance, from the state after start-up.\<close>

theorem aht20_read_witness:
  "trigger_ok \<lparr>trigger_ok = True, rdwr = Some [0x1C, 0, 0, 0x05, 0x9D, 0x04], now = 30,
               stamp = ''11/03 10:00:30'', lcd_ok = True, ser_ok = True\<rparr> \<and>
   rdwr \<lparr>trigger_ok = True, rdwr = Some [0x1C, 0, 0, 0x05, 0x9D, 0x04], now = 30,
               stamp = ''11/03 10:00:30'', lcd_ok = True, ser_ok = True\<rparr>
     = Some [0x1C, 0, 0, 0x05, 0x9D, 0x04] \<and>
   aht20_read_celsius \<lparr>trigger_ok = True, rdwr = Some [0x1C, 0, 0, 0x05, 0x9D, 0x04], now = 30,
               stamp = ''11/03 10:00:30'', lcd_ok = True, ser_ok = True\<rparr> = Inr (660825 / 32768) \<and>
   read_temp_f \<lparr>trigger_ok = True, rdwr = Some [0x1C, 0, 0, 0x05, 0x9D, 0x04], now = 30,
               stamp = ''11/03 10:00:30'', lcd_ok = True, ser_ok = True\<rparr> = Some (2238061 / 32768)"
  using aht20_read [of "\<lparr>trigger_ok = True, rdwr = Some [0x1C, 0, 0, 0x05, 0x9D, 0x04], now = 30,
               stamp = ''11/03 10:00:30'', lcd_ok = True, ser_ok = True\<rparr>" "0x1C" 0 0 "0x05" "0x9D" "0x04"]
  by simp

subsection \<open>C9\<close>

text \<open>
  C9. On an iteration with a sample available and the telemetry period elapsed, the
  last-sent timestamp is not updated: the body is left by \<^verbatim>\<open>AttributeError\<close> at
  \<^verbatim>\<open>self._apply_outputs(temp_f)\<close>, before the telemetry step. In mode \<^verbatim>\<open>heat\<close> with a
  serial port that refuses the write and the clock at 30, the timestamp stays 0.
\<close>

theorem telemetry_timestamp_skipped:
  "UART_PERIOD \<le> now \<lparr>trigger_ok = True, rdwr = Some [0x1C, 0, 0, 0x05, 0x9D, 0x04], now = 30,
      stamp = ''11/03 10:00:30'', lcd_ok = True, ser_ok = False\<rparr> - last_uart ((init True True)\<lparr>state_idx := 1\<rparr>) \<and>
   read_temp_f \<lparr>trigger_ok = True, rdwr = Some [0x1C, 0, 0, 0x05, 0x9D, 0x04], now = 30,
      stamp = ''11/03 10:00:30'', lcd_ok = True, ser_ok = False\<rparr> = Some (2238061 / 32768) \<and>
   run_iter \<lparr>trigger_ok = True, rdwr = Some [0x1C, 0, 0, 0x05, 0x9D, 0x04], now = 30,
      stamp = ''11/03 10:00:30'', lcd_ok = True, ser_ok = False\<rparr> ((init True True)\<lparr>state_idx := 1\<rparr>) = (Inl AttributeError, ((init True True)\<lparr>state_idx := 1\<rparr>)) \<and>
   last_uart (snd (run_iter \<lparr>trigger_ok = True, rdwr = Some [0x1C, 0, 0, 0x05, 0x9D, 0x04], now = 30,
      stamp = ''11/03 10:00:30'', lcd_ok = True, ser_ok = False\<rparr> ((init True True)\<lparr>state_idx := 1\<rparr>))) = 0"
proof -
  have t: "read_temp_f \<lparr>trigger_ok = True, rdwr = Some [0x1C, 0, 0, 0x05, 0x9D, 0x04], now = 30,
      stamp = ''11/03 10:00:30'', lcd_ok = True, ser_ok = False\<rparr> = Some (2238061 / 32768)"
    by (simp add: read_temp_f_def aht20_read_celsius_def tmp_raw_of_def)
  show ?thesis
    using run_iter_Some [OF t, of "(init True True)\<lparr>state_idx := 1\<rparr>"] t
    by (simp add: UART_PERIOD_def init_def)
qed

subsection \<open>C10\<close>

text \<open>
  C10. In an iteration whose sensor read fails while at least 2 seconds have elapsed
  since the last flip, the iteration returns normally, the alternation flag is inverted,
  the last-flip timestamp becomes the clock reading, and nothing is written to the display
  or the serial port.
\<close>

theorem outage_alternation:
  assumes "read_temp_f tk = None" and "now tk - last_alt s \<ge> LCD_ALT_PERIOD"
  shows "fst (run_iter tk s) = Inr () \<and>
         alt_flag (snd (run_iter tk s)) = (\<not> alt_flag s) \<and>
         last_alt (snd (run_iter tk s)) = now tk \<and>
         out (snd (run_iter tk s)) = out s"
  using assms by (simp add: run_iter_None alternate_def)

text \<open>An instance, from the state after start-up.\<close>

theorem outage_alternation_witness:
  "read_temp_f \<lparr>trigger_ok = False, rdwr = None, now = 2, stamp = ''11/03 10:00:02'',
                lcd_ok = True, ser_ok = True\<rparr> = None \<and>
   LCD_ALT_PERIOD \<le> now \<lparr>trigger_ok = False, rdwr = None, now = 2, stamp = ''11/03 10:00:02'',
                lcd_ok = True, ser_ok = True\<rparr> - last_alt (init True True) \<and>
   alt_flag (snd (run_iter \<lparr>trigger_ok = False, rdwr = None, now = 2, stamp = ''11/03 10:00:02'',
                lcd_ok = True, ser_ok = True\<rparr> (init True True))) \<and>
   last_alt (snd (run_iter \<lparr>trigger_ok = False, rdwr = None, now = 2, stamp = ''11/03 10:00:02'',
                lcd_ok = True, ser_ok = True\<rparr> (init True True))) = 2 \<and>
   out (snd (run_iter \<lparr>trigger_ok = False, rdwr = None, now = 2, stamp = ''11/03 10:00:02'',
                lcd_ok = True, ser_ok = True\<rparr> (init True True))) = [LcdClear]"
  using outage_alternation [of "\<lparr>trigger_ok = False, rdwr = None, now = 2, stamp = ''11/03 10:00:02'',
                lcd_ok = True, ser_ok = True\<rparr>" "init True True"]
  by (simp add: read_temp_f_def aht20_read_celsius_def init_def LCD_ALT_PERIOD_def)

end
